theory Spec2Isabelle
  imports Complex_Main "HOL-Library.Word" "HOL-Library.Sublist"
begin

text \<open>
  A model of \<^verbatim>\<open>TelegramService\<close> in its latest form, with inline keyboard, callback
  handler, signal parser and trade simulation (the first listing of
  \<^verbatim>\<open>src/unnamed/part_003\<close>), and of the test signal of the server. Calls that leave
  the process are events of a trace, and what the outside answers is a parameter of every
  function.
\<close>

section \<open>JavaScript strings\<close>

text \<open>
  A JavaScript string is a sequence of UTF-16 code units; the regular expressions of
  \<^verbatim>\<open>TelegramService\<close> carry no \<^verbatim>\<open>u\<close> flag, so they too work on code units. A
  character outside the Basic Multilingual Plane is a surrogate pair, and the temple sign of the
  token label is followed by the variation selector U+FE0F.
\<close>

type_synonym code_unit = "16 word"
type_synonym jsstring = "code_unit list"

definition ascii :: "string \<Rightarrow> jsstring" where
  "ascii s = map of_char s"

definition rocket :: jsstring where
  "rocket = [0xD83D, 0xDE80]"

definition chart_up :: jsstring where
  "chart_up = [0xD83D, 0xDCC8]"

definition temple :: jsstring where
  "temple = [0xD83C, 0xDFDB, 0xFE0F]"

definition stop_sign :: jsstring where
  "stop_sign = [0xD83D, 0xDED1]"

definition money_bag :: jsstring where
  "money_bag = [0xD83D, 0xDCB0]"

definition at_sign :: code_unit where
  "at_sign = 0x40"

definition dollar :: code_unit where
  "dollar = 0x24"

definition dot :: code_unit where
  "dot = 0x2E"

definition lparen :: code_unit where
  "lparen = 0x28"

text \<open>\<^verbatim>\<open>String.prototype.includes\<close>: some position of the text starts with the pattern.\<close>

fun str_includes :: "jsstring \<Rightarrow> jsstring \<Rightarrow> bool" where
  "str_includes [] pat = (pat = [])"
| "str_includes (x # xs) pat = (prefix pat (x # xs) \<or> str_includes xs pat)"

text \<open>
  \<^verbatim>\<open>String.prototype.replace\<close> with a string pattern: only the first occurrence is
  replaced. The replacement used by the service is the empty string, which has no
  \<^verbatim>\<open>$\<close> patterns to expand.
\<close>

fun str_replace :: "jsstring \<Rightarrow> jsstring \<Rightarrow> jsstring \<Rightarrow> jsstring" where
  "str_replace [] pat rep = (if pat = [] then rep else [])"
| "str_replace (x # xs) pat rep =
     (if prefix pat (x # xs) then rep @ drop (length pat) (x # xs)
      else x # str_replace xs pat rep)"

text \<open>The decimal rendering of a non-negative integer inside a template literal.\<close>

definition digit_unit :: "nat \<Rightarrow> code_unit" where
  "digit_unit d = of_nat (48 + d)"

fun show_nat :: "nat \<Rightarrow> jsstring" where
  "show_nat n = (if n < 10 then [digit_unit n] else show_nat (n div 10) @ [digit_unit (n mod 10)])"

declare show_nat.simps [simp del]

section \<open>Regular expressions of the signal parser\<close>

text \<open>
  The character classes and quantifiers that occur in the five patterns of
  \<^verbatim>\<open>parseSignalMessage\<close>. Every quantifier is greedy and ranges over a single character
  class.
\<close>

datatype cls = Space | Digit | Upper | Chr code_unit

definition is_space :: "code_unit \<Rightarrow> bool" where
  "is_space c \<longleftrightarrow>
     c \<in> set [0x09, 0x0A, 0x0B, 0x0C, 0x0D, 0x20, 0xA0, 0x1680, 0x2028, 0x2029, 0x202F,
               0x205F, 0x3000, 0xFEFF]
     \<or> (0x2000 \<le> c \<and> c \<le> 0x200A)"

definition is_digit :: "code_unit \<Rightarrow> bool" where
  "is_digit c \<longleftrightarrow> 0x30 \<le> c \<and> c \<le> 0x39"

definition is_upper :: "code_unit \<Rightarrow> bool" where
  "is_upper c \<longleftrightarrow> 0x41 \<le> c \<and> c \<le> 0x5A"

fun in_cls :: "cls \<Rightarrow> code_unit \<Rightarrow> bool" where
  "in_cls Space c = is_space c"
| "in_cls Digit c = is_digit c"
| "in_cls Upper c = is_upper c"
| "in_cls (Chr d) c = (c = d)"

datatype item = Lit jsstring | Star cls | Plus cls | Opt cls

text \<open>
  A pattern is the items before its capture group, the items of the group and the items
  after it.
\<close>

record regex =
  before :: "item list"
  group :: "item list"
  after :: "item list"

definition tagged :: "regex \<Rightarrow> (item \<times> bool) list" where
  "tagged re = map (\<lambda>i. (i, False)) (before re) @ map (\<lambda>i. (i, True)) (group re)
     @ map (\<lambda>i. (i, False)) (after re)"

definition keep :: "bool \<Rightarrow> jsstring \<Rightarrow> jsstring \<Rightarrow> jsstring" where
  "keep g cs cap = (if g then cs @ cap else cap)"

text \<open>
  The backtracking matcher at one start position. A greedy quantifier first takes one more
  character and falls back to taking none when the rest of the pattern then fails. The
  result is the text of capture group 1 on the first path that succeeds.
\<close>

fun run :: "(item \<times> bool) list \<Rightarrow> jsstring \<Rightarrow> jsstring option" where
  "run [] s = Some []"
| "run ((Lit l, g) # its) s =
     (if prefix l s then map_option (keep g l) (run its (drop (length l) s)) else None)"
| "run ((Star c, g) # its) [] = run its []"
| "run ((Star c, g) # its) (x # xs) =
     (if in_cls c x
      then (case run ((Star c, g) # its) xs of
              Some cap \<Rightarrow> Some (keep g [x] cap)
            | None \<Rightarrow> run its (x # xs))
      else run its (x # xs))"
| "run ((Plus c, g) # its) [] = None"
| "run ((Plus c, g) # its) (x # xs) =
     (if in_cls c x then map_option (keep g [x]) (run ((Star c, g) # its) xs) else None)"
| "run ((Opt c, g) # its) [] = run its []"
| "run ((Opt c, g) # its) (x # xs) =
     (if in_cls c x
      then (case run its xs of
              Some cap \<Rightarrow> Some (keep g [x] cap)
            | None \<Rightarrow> run its (x # xs))
      else run its (x # xs))"

text \<open>
  \<^verbatim>\<open>String.prototype.match\<close> with a non-global pattern: the leftmost start position
  that matches, the end of the text included; \<open>None\<close> is \<^verbatim>\<open>null\<close>. The result
  is element 1 of the match array.
\<close>

fun str_match :: "jsstring \<Rightarrow> regex \<Rightarrow> jsstring option" where
  "str_match [] re = run (tagged re) []"
| "str_match (x # xs) re =
     (case run (tagged re) (x # xs) of Some cap \<Rightarrow> Some cap | None \<Rightarrow> str_match xs re)"

section \<open>Message classifier\<close>

definition bullish_marker :: jsstring where
  "bullish_marker = rocket @ ascii '' **Bullish Alert** '' @ rocket"

definition buy_marker :: jsstring where
  "buy_marker = chart_up @ ascii '' **Signal**: Buy''"

definition isBullishSignal :: "jsstring \<Rightarrow> bool" where
  "isBullishSignal message \<longleftrightarrow>
     str_includes message bullish_marker \<or> str_includes message buy_marker"

section \<open>Signal parser\<close>

definition token_label :: jsstring where
  "token_label = temple @ ascii '' Token:''"

definition tp1_label :: jsstring where
  "tp1_label = ascii ''TP1:''"

definition tp2_label :: jsstring where
  "tp2_label = ascii ''TP2:''"

definition sl_label :: jsstring where
  "sl_label = stop_sign @ ascii '' Stop Loss:''"

definition entry_label :: jsstring where
  "entry_label = money_bag @ ascii '' Entry Price:''"

text \<open>\<^verbatim>\<open>/<label>\s*\$?(\d+\.?\d*)/\<close>\<close>

definition price_regex :: "jsstring \<Rightarrow> regex" where
  "price_regex label =
     \<lparr>before = [Lit label, Star Space, Opt (Chr dollar)],
      group = [Plus Digit, Opt (Chr dot), Star Digit],
      after = []\<rparr>"

text \<open>\<^verbatim>\<open>/<temple> Token:\s*([A-Z]+)\s*\(/\<close>\<close>

definition token_regex :: regex where
  "token_regex =
     \<lparr>before = [Lit token_label, Star Space],
      group = [Plus Upper],
      after = [Star Space, Lit [lparen]]\<rparr>"

text \<open>
  \<^verbatim>\<open>parseFloat\<close> on the text of a capture \<^verbatim>\<open>\d+\.?\d*\<close>: digits, then possibly a dot
  and more digits. The model keeps the exact decimal value of that text as a rational;
  JavaScript rounds the same value to the nearest double.
\<close>

definition digit_val :: "code_unit \<Rightarrow> nat" where
  "digit_val c = unat c - 48"

definition digits_val :: "jsstring \<Rightarrow> nat" where
  "digits_val ds = foldl (\<lambda>a d. 10 * a + digit_val d) 0 ds"

definition parseFloat :: "jsstring \<Rightarrow> rat" where
  "parseFloat s =
     (let ip = takeWhile is_digit s;
          r = dropWhile is_digit s;
          fp = (case r of [] \<Rightarrow> [] | c # t \<Rightarrow> if c = dot then takeWhile is_digit t else [])
      in of_nat (digits_val ip) + of_nat (digits_val fp) / 10 ^ length fp)"

record signal_data =
  token :: "jsstring option"
  tp1 :: "rat option"
  tp2 :: "rat option"
  sl :: "rat option"
  entryPrice :: "rat option"

definition parseSignalMessage :: "jsstring \<Rightarrow> signal_data" where
  "parseSignalMessage message =
     \<lparr>token = str_match message token_regex,
      tp1 = map_option parseFloat (str_match message (price_regex tp1_label)),
      tp2 = map_option parseFloat (str_match message (price_regex tp2_label)),
      sl = map_option parseFloat (str_match message (price_regex sl_label)),
      entryPrice = map_option parseFloat (str_match message (price_regex entry_label))\<rparr>"

section \<open>Current-price estimate of simulateTrade\<close>

text \<open>
  \<^verbatim>\<open>signalData.entryPrice || (signalData.tp1 && signalData.sl ? (tp1 + sl) / 2 : null)\<close>.
  A parsed field is \<^verbatim>\<open>null\<close> or a number; \<^verbatim>\<open>null\<close> and \<^verbatim>\<open>0\<close> are falsy.
\<close>

fun truthy :: "rat option \<Rightarrow> bool" where
  "truthy None = False"
| "truthy (Some x) = (x \<noteq> 0)"

definition currentPrice :: "signal_data \<Rightarrow> rat option" where
  "currentPrice signalData =
     (if truthy (entryPrice signalData) then entryPrice signalData
      else if truthy (tp1 signalData) \<and> truthy (sl signalData)
           then (case (tp1 signalData, sl signalData) of
                   (Some a, Some b) \<Rightarrow> Some ((a + b) / 2)
                 | _ \<Rightarrow> None)
           else None)"

section \<open>Username normalisation of sendMessage\<close>

text \<open>\<^verbatim>\<open>username.replace('@', '')\<close>\<close>

definition cleanUsername :: "jsstring \<Rightarrow> jsstring" where
  "cleanUsername username = str_replace username [at_sign] []"

section \<open>Messages\<close>

definition nl :: jsstring where
  "nl = [0x0A]"





text \<open>The message text of end-to-end scenario A, with its ellipses.\<close>

definition scenario_A_text :: jsstring where
  "scenario_A_text =
     rocket @ ascii '' **Bullish Alert** '' @ rocket @ ascii '' ... TP1: $11.37 ... ''
     @ stop_sign @ ascii '' Stop Loss: $8.37 ... '' @ money_bag @ ascii '' Entry Price: $9.37''"







text \<open>The message text of end-to-end scenario B.\<close>

definition plain_update :: jsstring where
  "plain_update = ascii ''plain update, no signal''"


section \<open>Messages written with the canonical label markers\<close>







section \<open>Documents, requests and responses\<close>

text \<open>
  A thrown value: an \<^verbatim>\<open>Error\<close> with its message and no \<^verbatim>\<open>response\<close> property; an
  error of the HTTP client carrying \<^verbatim>\<open>response.data.description\<close>, which may be
  undefined; an error of the bot library, whose \<^verbatim>\<open>response\<close> has a description but
  no \<^verbatim>\<open>data\<close>; a \<^verbatim>\<open>TypeError\<close>.
\<close>

datatype js_error =
    Error jsstring
  | AxiosError "jsstring option"
  | TelegramError jsstring
  | TypeError

text \<open>The fields that the service reads of a document of the users and safes collections.\<close>

record user_doc =
  doc_chatId :: "int option"
  doc_twitterId :: "jsstring option"

record safe_doc =
  arbitrum_address :: "jsstring option"

record inline_button =
  button_text :: jsstring
  callback_data :: jsstring

type_synonym keyboard = "inline_button list list"

text \<open>The body of an answer of the chat platform to \<^verbatim>\<open>sendMessage\<close>.\<close>

record envelope =
  ok :: bool
  sent_id :: "nat option"
  description :: "jsstring option"

record api_body =
  Signal_Message :: jsstring
  Token_Mentioned :: "jsstring option"
  TP1 :: "rat option"
  TP2 :: "rat option"
  SL :: "rat option"
  Current_Price :: "rat option"
  Max_Exit_Time :: nat
  body_username :: jsstring
  body_safeAddress :: jsstring

text \<open>
  The response body of the signal processing API as far as the service reads it. A field
  that is missing is \<open>None\<close>; a body that is not an object reads as one without fields.
\<close>

record trading_pair =
  networkKey :: "jsstring option"
  pair_safeAddress :: "jsstring option"
  tradeId :: "jsstring option"
  pair_status :: "jsstring option"
  pair_error :: "jsstring option"

record api_result =
  tradingPair :: "trading_pair option"
  result_error :: "jsstring option"

record api_response =
  resp_status :: "jsstring option"
  signalId :: "jsstring option"
  result :: "api_result option"

section \<open>The callback context and the interaction event\<close>

record tg_user =
  user_id :: int
  user_username :: "jsstring option"

record tg_chat =
  chat_id :: int
  chat_type :: jsstring
  chat_username :: "jsstring option"

record tg_message =
  message_id :: nat
  chat :: tg_chat
  msg_text :: "jsstring option"
  date :: nat

text \<open>
  \<^verbatim>\<open>ctx.from\<close> is the sender of the callback query and \<^verbatim>\<open>ctx.chat\<close> the chat of its
  message, when it has one; \<^verbatim>\<open>ctx.match[1]\<close> is what follows \<^verbatim>\<open>simulate_trade_\<close> in
  the callback data.
\<close>

record callback_query =
  cq_id :: jsstring
  cq_from :: tg_user
  cq_message :: "tg_message option"
  chat_instance :: jsstring

record callback_ctx =
  match1 :: jsstring
  callbackQuery :: callback_query

record interaction =
  username :: "jsstring option"
  chatId :: "int option"
  chatType :: "jsstring option"
  chatUsername :: "jsstring option"
  messageId :: nat
  messageText :: jsstring
  messageDate :: nat
  callbackQueryId :: jsstring
  callbackData :: jsstring
  callbackQueryFrom :: tg_user
  chatInstance :: jsstring
  callbackTimestamp :: nat
  messageTimestamp :: "nat option"

text \<open>
  The simulation record: the fields of the interaction event, the status and creation time,
  and the four fields attached after the remote call.
\<close>

record simulation_record = interaction +
  status :: jsstring
  timestamp :: nat
  apiResponse :: "api_response option"
  signalData :: "signal_data option"
  twitterId :: "jsstring option"
  safeAddress :: "jsstring option"

section \<open>Effects\<close>

text \<open>
  The calls that leave the process, in the order in which they are made: the document
  store, the signal processing API and the chat transport. The two timer events mark where
  the periodic refresh of the processing message is started and cancelled; its callbacks
  run between them and only edit that message.
\<close>

datatype event =
    DbConnect
  | FindUser "jsstring option"
  | FindSafe jsstring
  | PostSignal api_body
  | InsertOne simulation_record
  | BotSend int jsstring keyboard
  | HttpSend int jsstring
  | AnswerCbQuery jsstring
  | Reply jsstring
  | EditMessageText int nat jsstring
  | SetInterval
  | ClearInterval

text \<open>
  What the outside answers. Every answer may depend on the number of calls made before, so
  the same call can succeed once and fail later.
\<close>

record world =
  clock :: "nat \<Rightarrow> nat"
  next_day :: "nat \<Rightarrow> nat"
  connect :: "nat \<Rightarrow> js_error option"
  find_user :: "nat \<Rightarrow> jsstring option \<Rightarrow> js_error + user_doc option"
  find_safe :: "nat \<Rightarrow> jsstring \<Rightarrow> js_error + safe_doc option"
  post_signal :: "nat \<Rightarrow> api_body \<Rightarrow> js_error + api_response"
  insert_one :: "nat \<Rightarrow> simulation_record \<Rightarrow> js_error option"
  bot_send :: "nat \<Rightarrow> int \<Rightarrow> jsstring \<Rightarrow> keyboard \<Rightarrow> js_error + nat"
  http_send :: "nat \<Rightarrow> int \<Rightarrow> jsstring \<Rightarrow> js_error + envelope"
  answer :: "nat \<Rightarrow> jsstring \<Rightarrow> js_error option"
  post_reply :: "nat \<Rightarrow> jsstring \<Rightarrow> js_error + nat"
  edit :: "nat \<Rightarrow> int \<Rightarrow> nat \<Rightarrow> jsstring \<Rightarrow> js_error option"

record state =
  trace :: "event list"
  trade_simulations :: "simulation_record list"

type_synonym 'a io = "state \<Rightarrow> (js_error + 'a) \<times> state"

definition ret :: "'a \<Rightarrow> 'a io" where
  "ret x = (\<lambda>s. (Inr x, s))"

definition throw :: "js_error \<Rightarrow> 'a io" where
  "throw e = (\<lambda>s. (Inl e, s))"

definition bnd :: "'a io \<Rightarrow> ('a \<Rightarrow> 'b io) \<Rightarrow> 'b io" where
  "bnd m f = (\<lambda>s. case m s of (Inl e, s') \<Rightarrow> (Inl e, s') | (Inr x, s') \<Rightarrow> f x s')"

definition try_catch :: "'a io \<Rightarrow> (js_error \<Rightarrow> 'a io) \<Rightarrow> 'a io" where
  "try_catch m h = (\<lambda>s. case m s of (Inl e, s') \<Rightarrow> h e s' | (Inr x, s') \<Rightarrow> (Inr x, s'))"

definition settle :: "js_error option \<Rightarrow> js_error + unit" where
  "settle r = (case r of None \<Rightarrow> Inr () | Some e \<Rightarrow> Inl e)"

definition call :: "event \<Rightarrow> (nat \<Rightarrow> js_error + 'a) \<Rightarrow> 'a io" where
  "call ev outcome = (\<lambda>s. (outcome (length (trace s)), s\<lparr>trace := trace s @ [ev]\<rparr>))"

definition now :: "world \<Rightarrow> nat io" where
  "now w = (\<lambda>s. (Inr (clock w (length (trace s))), s))"

definition dbConnect :: "world \<Rightarrow> unit io" where
  "dbConnect w = call DbConnect (\<lambda>n. settle (connect w n))"

definition insertOne :: "world \<Rightarrow> simulation_record \<Rightarrow> unit io" where
  "insertOne w r =
     (\<lambda>s. case insert_one w (length (trace s)) r of
             None \<Rightarrow> (Inr (), s\<lparr>trace := trace s @ [InsertOne r],
                                 trade_simulations := trade_simulations s @ [r]\<rparr>)
           | Some e \<Rightarrow> (Inl e, s\<lparr>trace := trace s @ [InsertOne r]\<rparr>))"

text \<open>A value inside a template literal, and \<^verbatim>\<open>value || fallback\<close> on a string field.\<close>

definition str_of :: "jsstring option \<Rightarrow> jsstring" where
  "str_of v = (case v of None \<Rightarrow> ascii ''undefined'' | Some s \<Rightarrow> s)"

definition or_default :: "jsstring option \<Rightarrow> jsstring \<Rightarrow> jsstring" where
  "or_default v d = (case v of None \<Rightarrow> d | Some s \<Rightarrow> if s = [] then d else s)"

section \<open>User directory lookup\<close>

definition findChatIdByUsername :: "world \<Rightarrow> jsstring \<Rightarrow> int io" where
  "findChatIdByUsername w name =
     try_catch
       (bnd (dbConnect w) (\<lambda>_.
        bnd (call (FindUser (Some name)) (\<lambda>n. find_user w n (Some name))) (\<lambda>user.
        case user of
          None \<Rightarrow> throw (Error (ascii ''User not found or chat ID not available in database.''))
        | Some u \<Rightarrow>
            (case doc_chatId u of
               None \<Rightarrow> throw (Error (ascii ''User not found or chat ID not available in database.''))
             | Some c \<Rightarrow>
                 if c = 0
                 then throw (Error (ascii ''User not found or chat ID not available in database.''))
                 else ret c))))
       (\<lambda>error. throw error)"

definition fetchUserData :: "world \<Rightarrow> jsstring option \<Rightarrow> (jsstring \<times> jsstring) io" where
  "fetchUserData w telegramUsername =
     try_catch
       (bnd (dbConnect w) (\<lambda>_.
        bnd (call (FindUser telegramUsername) (\<lambda>n. find_user w n telegramUsername)) (\<lambda>user.
        case (case user of None \<Rightarrow> None | Some u \<Rightarrow> doc_twitterId u) of
          None \<Rightarrow> throw (Error (ascii ''User not found or twitterId not available for telegram username: '' @ str_of telegramUsername))
        | Some tid \<Rightarrow>
            if tid = []
            then throw (Error (ascii ''User not found or twitterId not available for telegram username: '' @ str_of telegramUsername))
            else
              bnd (call (FindSafe tid) (\<lambda>n. find_safe w n tid)) (\<lambda>safe.
              case (case safe of None \<Rightarrow> None | Some d \<Rightarrow> arbitrum_address d) of
                None \<Rightarrow> throw (Error (ascii ''Safe not found or arbitrum address not available for twitterId: '' @ tid))
              | Some a \<Rightarrow>
                  if a = []
                  then throw (Error (ascii ''Safe not found or arbitrum address not available for twitterId: '' @ tid))
                  else ret (tid, a)))))
       (\<lambda>error. throw error)"

section \<open>Dispatcher\<close>

definition simulate_label :: jsstring where
  "simulate_label = [0xD83D, 0xDE80] @ ascii '' Simulate Trade''"

definition callback_token :: "nat \<Rightarrow> jsstring \<Rightarrow> jsstring" where
  "callback_token t name = ascii ''simulate_trade_'' @ show_nat t @ ascii ''_'' @ name"

definition sendMessage :: "world \<Rightarrow> jsstring \<Rightarrow> jsstring \<Rightarrow> envelope io" where
  "sendMessage w name message =
     try_catch
       (bnd (findChatIdByUsername w (cleanUsername name)) (\<lambda>c.
        if isBullishSignal message
        then
          bnd (now w) (\<lambda>t.
          bnd (call (BotSend c message
                 [[\<lparr>button_text = simulate_label,
                    callback_data = callback_token t (cleanUsername name)\<rparr>]])
               (\<lambda>n. bot_send w n c message
                 [[\<lparr>button_text = simulate_label,
                    callback_data = callback_token t (cleanUsername name)\<rparr>]])) (\<lambda>response.
          ret \<lparr>ok = True, sent_id = Some response,
               description = Some (ascii ''Message sent successfully with inline keyboard'')\<rparr>))
        else
          bnd (call (HttpSend c message) (\<lambda>n. http_send w n c message)) (\<lambda>data.
          if \<not> ok data
          then throw (Error (ascii ''Telegram API Error: '' @ str_of (description data)))
          else ret data)))
       (\<lambda>error.
          case error of
            AxiosError d \<Rightarrow> throw (Error (ascii ''Telegram API Error: '' @ str_of d))
          | TelegramError _ \<Rightarrow> throw TypeError
          | _ \<Rightarrow> throw error)"

section \<open>Simulation orchestrator\<close>

definition simulateTrade ::
  "world \<Rightarrow> signal_data \<Rightarrow> jsstring \<Rightarrow> jsstring \<Rightarrow> api_response io" where
  "simulateTrade w sd name address =
     try_catch
       (bnd (now w) (\<lambda>t.
        bnd (call (PostSignal
                \<lparr>Signal_Message = ascii ''buy'', Token_Mentioned = token sd, TP1 = tp1 sd,
                 TP2 = tp2 sd, SL = sl sd, Current_Price = currentPrice sd,
                 Max_Exit_Time = next_day w t, body_username = name,
                 body_safeAddress = address\<rparr>)
              (\<lambda>n. post_signal w n
                \<lparr>Signal_Message = ascii ''buy'', Token_Mentioned = token sd, TP1 = tp1 sd,
                 TP2 = tp2 sd, SL = sl sd, Current_Price = currentPrice sd,
                 Max_Exit_Time = next_day w t, body_username = name,
                 body_safeAddress = address\<rparr>)) (\<lambda>response.
        ret response)))
       (\<lambda>error. throw error)"

definition simulationRecord :: "interaction \<Rightarrow> nat \<Rightarrow> simulation_record" where
  "simulationRecord userData t =
     \<lparr>username = username userData,
      chatId = chatId userData,
      chatType = chatType userData,
      chatUsername = chatUsername userData,
      messageId = messageId userData,
      messageText = messageText userData,
      messageDate = messageDate userData,
      callbackQueryId = callbackQueryId userData,
      callbackData = callbackData userData,
      callbackQueryFrom = callbackQueryFrom userData,
      chatInstance = chatInstance userData,
      callbackTimestamp = callbackTimestamp userData,
      messageTimestamp = messageTimestamp userData,
      status = ascii ''initiated'',
      timestamp = t,
      apiResponse = None, signalData = None, twitterId = None, safeAddress = None\<rparr>"

text \<open>The four fields attached to the record once the remote call has returned.\<close>

definition attach ::
  "simulation_record \<Rightarrow> api_response \<Rightarrow> signal_data \<Rightarrow> jsstring \<times> jsstring \<Rightarrow> simulation_record" where
  "attach r response sd userDataResult =
     r\<lparr>apiResponse := Some response,
       signalData := Some sd,
       twitterId := Some (fst userDataResult),
       safeAddress := Some (snd userDataResult)\<rparr>"

definition handleSimulateTradeRequest :: "world \<Rightarrow> interaction \<Rightarrow> api_response io" where
  "handleSimulateTradeRequest w userData =
     try_catch
       (bnd (dbConnect w) (\<lambda>_.
        bnd (now w) (\<lambda>t.
        bnd (fetchUserData w (username userData)) (\<lambda>userDataResult.
        bnd (simulateTrade w (parseSignalMessage (messageText userData))
               (fst userDataResult) (snd userDataResult)) (\<lambda>response.
        bnd (insertOne w
               (attach (simulationRecord userData t) response
                  (parseSignalMessage (messageText userData)) userDataResult)) (\<lambda>_.
        ret response))))))
       (\<lambda>error. throw error)"

section \<open>Callback correlator\<close>

definition processing_notice :: jsstring where
  "processing_notice = [0xD83D, 0xDD04] @ ascii '' Processing trade simulation...''"

definition processing_text :: jsstring where
  "processing_text =
     [0x23F3] @ ascii '' **Processing Trade Simulation...**'' @ nl @ nl
     @ [0xD83D, 0xDD04] @ ascii '' Connecting to trading engine...'' @ nl
     @ [0xD83D, 0xDCCA] @ ascii '' Analyzing signal data...'' @ nl
     @ [0x26A1] @ ascii '' Executing simulation...'' @ nl @ nl
     @ ascii ''*This may take a few moments...*''"

definition error_notice :: jsstring where
  "error_notice = [0x274C] @ ascii '' Error processing simulation request''"

definition sorry_text :: jsstring where
  "sorry_text = [0x274C] @ ascii '' Sorry, there was an error processing your trade simulation. Please try again later.''"

definition initiated_text :: jsstring where
  "initiated_text = [0x2705] @ ascii '' Trade simulation has been initiated for this signal. You will receive updates shortly.''"

definition bullet :: jsstring where
  "bullet = [0xD83D, 0xDD39]"

definition backtick :: jsstring where
  "backtick = [0x60]"

text \<open>\<^verbatim>\<open>.replace(/_/g, '\\_')\<close>: a backslash before every underscore.\<close>

definition escape_underscores :: "jsstring \<Rightarrow> jsstring" where
  "escape_underscores s = concat (map (\<lambda>c. if c = 0x5F then [0x5C, 0x5F] else [c]) s)"

text \<open>\<^verbatim>\<open>apiResponse.result?.tradingPair?.<field>\<close>\<close>

definition pair_field :: "(trading_pair \<Rightarrow> jsstring option) \<Rightarrow> api_response \<Rightarrow> jsstring option" where
  "pair_field f r =
     (case result r of
        None \<Rightarrow> None
      | Some res \<Rightarrow> (case tradingPair res of None \<Rightarrow> None | Some p \<Rightarrow> f p))"

definition replyMessage :: "api_response \<Rightarrow> jsstring" where
  "replyMessage r =
     (if resp_status r = Some (ascii ''success'')
      then
        [0x2705] @ ascii '' **Trade Simulation Successful!**'' @ nl @ nl
        @ bullet @ ascii '' **Signal ID**: '' @ backtick @ str_of (signalId r) @ backtick @ nl
        @ bullet @ ascii '' **Network**: '' @ or_default (pair_field networkKey r) (ascii ''N/A'') @ nl
        @ bullet @ ascii '' **Safe Address**: '' @ backtick
        @ escape_underscores (or_default (pair_field pair_safeAddress r) (ascii ''N/A''))
        @ backtick @ nl
        @ bullet @ ascii '' **Trade ID**: '' @ backtick
        @ escape_underscores (or_default (pair_field tradeId r) (ascii ''N/A'')) @ backtick @ nl
        @ bullet @ ascii '' **Status**: '' @ or_default (pair_field pair_status r) (ascii ''N/A'')
        @ nl @ nl
        @ [0xD83D, 0xDE80] @ ascii '' Your trade simulation has been processed successfully!''
      else if resp_status r = Some (ascii ''failed'')
      then
        [0x274C] @ ascii '' **Trade Simulation Failed**'' @ nl @ nl
        @ bullet @ ascii '' **Signal ID**: '' @ backtick @ str_of (signalId r) @ backtick @ nl
        @ bullet @ ascii '' **Network**: '' @ or_default (pair_field networkKey r) (ascii ''N/A'') @ nl
        @ bullet @ ascii '' **Error**: '' @ backtick
        @ escape_underscores
            (or_default (case result r of None \<Rightarrow> None | Some res \<Rightarrow> result_error res)
               (or_default (pair_field pair_error r) (ascii ''Unknown error'')))
        @ backtick @ nl @ nl
        @ ascii ''Please try again or contact support if the issue persists.''
      else initiated_text)"

text \<open>
  The interaction event read from the callback context. Reading a field of a missing
  message, or taking a substring of a missing message text, raises a \<^verbatim>\<open>TypeError\<close>.
\<close>

definition userData_of :: "callback_ctx \<Rightarrow> nat \<Rightarrow> js_error + interaction" where
  "userData_of ctx t =
     (case cq_message (callbackQuery ctx) of
        None \<Rightarrow> Inl TypeError
      | Some m \<Rightarrow>
          (case msg_text m of
             None \<Rightarrow> Inl TypeError
           | Some body \<Rightarrow>
               Inr \<lparr>username = user_username (cq_from (callbackQuery ctx)),
                    chatId = Some (chat_id (chat m)),
                    chatType = Some (chat_type (chat m)),
                    chatUsername = chat_username (chat m),
                    messageId = message_id m,
                    messageText = body,
                    messageDate = date m,
                    callbackQueryId = cq_id (callbackQuery ctx),
                    callbackData = match1 ctx,
                    callbackQueryFrom = cq_from (callbackQuery ctx),
                    chatInstance = chat_instance (callbackQuery ctx),
                    callbackTimestamp = t,
                    messageTimestamp = (if date m = 0 then None else Some (date m * 1000))\<rparr>))"

definition answerCbQuery :: "world \<Rightarrow> jsstring \<Rightarrow> unit io" where
  "answerCbQuery w notice = call (AnswerCbQuery notice) (\<lambda>n. settle (answer w n notice))"

definition reply :: "world \<Rightarrow> jsstring \<Rightarrow> nat io" where
  "reply w body = call (Reply body) (\<lambda>n. post_reply w n body)"

definition editMessageText :: "world \<Rightarrow> callback_ctx \<Rightarrow> nat \<Rightarrow> jsstring \<Rightarrow> unit io" where
  "editMessageText w ctx mid body =
     (case cq_message (callbackQuery ctx) of
        None \<Rightarrow> throw TypeError
      | Some m \<Rightarrow>
          call (EditMessageText (chat_id (chat m)) mid body)
            (\<lambda>n. settle (edit w n (chat_id (chat m)) mid body)))"

text \<open>
  The handler of \<^verbatim>\<open>/simulate_trade_(.+)/\<close> from the start of the progress timer on:
  the inner \<^verbatim>\<open>try\<close> and its \<^verbatim>\<open>catch\<close>.
\<close>

definition process_simulation ::
  "world \<Rightarrow> callback_ctx \<Rightarrow> interaction \<Rightarrow> nat \<Rightarrow> unit io" where
  "process_simulation w ctx userData processingMessage =
     bnd (call SetInterval (\<lambda>_. Inr ())) (\<lambda>_.
     try_catch
       (bnd (handleSimulateTradeRequest w userData) (\<lambda>response.
        bnd (call ClearInterval (\<lambda>_. Inr ())) (\<lambda>_.
        editMessageText w ctx processingMessage (replyMessage response))))
       (\<lambda>error.
        bnd (call ClearInterval (\<lambda>_. Inr ())) (\<lambda>_.
        bnd (try_catch (answerCbQuery w error_notice) (\<lambda>_. ret ())) (\<lambda>_.
        try_catch (editMessageText w ctx processingMessage sorry_text)
          (\<lambda>_. bnd (reply w sorry_text) (\<lambda>_. ret ()))))))"

text \<open>The outer \<^verbatim>\<open>catch\<close> of the handler.\<close>

definition report_failure :: "world \<Rightarrow> unit io" where
  "report_failure w =
     bnd (try_catch (answerCbQuery w error_notice) (\<lambda>_. ret ())) (\<lambda>_.
     bnd (reply w sorry_text) (\<lambda>_. ret ()))"

definition simulate_trade_action :: "world \<Rightarrow> callback_ctx \<Rightarrow> unit io" where
  "simulate_trade_action w ctx =
     try_catch
       (bnd (now w) (\<lambda>t.
        bnd (case userData_of ctx t of Inl e \<Rightarrow> throw e | Inr u \<Rightarrow> ret u) (\<lambda>userData.
        bnd (answerCbQuery w processing_notice) (\<lambda>_.
        bnd (reply w processing_text) (\<lambda>processingMessage.
        process_simulation w ctx userData processingMessage)))))
       (\<lambda>error. report_failure w)"

section \<open>What a run adds to the trace and to the store\<close>

definition is_remote :: "event \<Rightarrow> bool" where
  "is_remote e =
     (case e of DbConnect \<Rightarrow> True | FindUser _ \<Rightarrow> True | FindSafe _ \<Rightarrow> True
      | PostSignal _ \<Rightarrow> True | InsertOne _ \<Rightarrow> True | _ \<Rightarrow> False)"

definition is_lookup :: "event \<Rightarrow> bool" where
  "is_lookup e = (case e of DbConnect \<Rightarrow> True | FindUser _ \<Rightarrow> True | FindSafe _ \<Rightarrow> True | _ \<Rightarrow> False)"

definition is_post :: "event \<Rightarrow> bool" where
  "is_post e = (case e of PostSignal _ \<Rightarrow> True | _ \<Rightarrow> False)"

definition is_insert :: "event \<Rightarrow> bool" where
  "is_insert e = (case e of InsertOne _ \<Rightarrow> True | _ \<Rightarrow> False)"

definition is_send :: "event \<Rightarrow> bool" where
  "is_send e = (case e of BotSend _ _ _ \<Rightarrow> True | HttpSend _ _ \<Rightarrow> True | _ \<Rightarrow> False)"

text \<open>
  From \<open>s\<close> to \<open>s'\<close> the trace has grown by events that satisfy \<open>P\<close> and the
  collection by records that satisfy \<open>Q\<close>.
\<close>

definition ext :: "(event \<Rightarrow> bool) \<Rightarrow> (simulation_record \<Rightarrow> bool) \<Rightarrow> state \<Rightarrow> state \<Rightarrow> bool" where
  "ext P Q s s' \<longleftrightarrow>
     (\<exists>evs. trace s' = trace s @ evs \<and> list_all P evs) \<and>
     (\<exists>new. trade_simulations s' = trade_simulations s @ new \<and> list_all Q new)"

definition stays :: "(event \<Rightarrow> bool) \<Rightarrow> (simulation_record \<Rightarrow> bool) \<Rightarrow> 'a io \<Rightarrow> bool" where
  "stays P Q m \<longleftrightarrow> (\<forall>s. ext P Q s (snd (m s)))"


text \<open>The error of a user directory lookup that finds no chat id.\<close>

definition not_found_chat :: js_error where
  "not_found_chat = Error (ascii ''User not found or chat ID not available in database.'')"


section \<open>A concrete world\<close>

text \<open>The response of end-to-end scenario D.\<close>

definition failed_response :: api_response where
  "failed_response =
     \<lparr>resp_status = Some (ascii ''failed''), signalId = None,
      result = Some \<lparr>tradingPair = None, result_error = Some (ascii ''slippage_exceeded'')\<rparr>\<rparr>"

text \<open>
  A world in which only alice is on record, every call succeeds and the remote simulation
  answers with the response of scenario D.
\<close>

definition quiet_world :: world where
  "quiet_world =
     \<lparr>clock = (\<lambda>n. 1720000000000 + n),
      next_day = (\<lambda>t. t + 86400000),
      connect = (\<lambda>_. None),
      find_user = (\<lambda>_ name.
        if name = Some (ascii ''alice'')
        then Inr (Some \<lparr>doc_chatId = Some 4436, doc_twitterId = Some (ascii ''alice_x'')\<rparr>)
        else Inr None),
      find_safe = (\<lambda>_ _. Inr (Some \<lparr>arbitrum_address = Some (ascii ''0xA11CE'')\<rparr>)),
      post_signal = (\<lambda>_ _. Inr failed_response),
      insert_one = (\<lambda>_ _. None),
      bot_send = (\<lambda>_ _ _ _. Inr 1),
      http_send = (\<lambda>_ _ _. Inr \<lparr>ok = True, sent_id = Some 1, description = None\<rparr>),
      answer = (\<lambda>_ _. None),
      post_reply = (\<lambda>_ _. Inr 2),
      edit = (\<lambda>_ _ _ _. None)\<rparr>"


definition idle :: state where
  "idle = \<lparr>trace = [], trade_simulations = []\<rparr>"

definition click :: "jsstring \<Rightarrow> interaction" where
  "click name =
     \<lparr>username = Some name, chatId = Some 4436, chatType = Some (ascii ''private''),
      chatUsername = Some name, messageId = 1, messageText = scenario_A_text,
      messageDate = 1720000000, callbackQueryId = ascii ''q1'',
      callbackData = ascii ''1720000000002_'' @ name,
      callbackQueryFrom = \<lparr>user_id = 4436, user_username = Some name\<rparr>,
      chatInstance = ascii ''i1'', callbackTimestamp = 1720000005000,
      messageTimestamp = Some 1720000000000\<rparr>"

definition alice_ctx :: callback_ctx where
  "alice_ctx =
     \<lparr>match1 = ascii ''1720000000002_alice'',
      callbackQuery =
        \<lparr>cq_id = ascii ''q1'',
         cq_from = \<lparr>user_id = 4436, user_username = Some (ascii ''alice'')\<rparr>,
         cq_message = Some
           \<lparr>message_id = 1,
            chat = \<lparr>chat_id = 4436, chat_type = ascii ''private'',
                    chat_username = Some (ascii ''alice'')\<rparr>,
            msg_text = Some scenario_A_text, date = 1720000000\<rparr>,
         chat_instance = ascii ''i1''\<rparr>\<rparr>"

section \<open>Runs that do not read the store\<close>

text \<open>
  An action is uniform when its result, the events it adds and the records it adds are a
  function of the number of calls made before: it reads neither the events of the trace nor
  the records of the collection.
\<close>

definition uniform :: "'a io \<Rightarrow> bool" where
  "uniform m \<longleftrightarrow>
     (\<exists>F. \<forall>s. m s = (case F (length (trace s)) of
                        (r, evs, new) \<Rightarrow>
                          (r, s\<lparr>trace := trace s @ evs,
                                trade_simulations := trade_simulations s @ new\<rparr>)))"


section \<open>Predicates on events\<close>


text \<open>An insert stores a record whose status is \<^verbatim>\<open>initiated\<close>.\<close>

definition insert_initiated :: "event \<Rightarrow> bool" where
  "insert_initiated e = (case e of InsertOne r \<Rightarrow> status r = ascii ''initiated'' | _ \<Rightarrow> True)"


section \<open>Properties of the matcher\<close>

lemma run_lit: "run ((Lit l, g) # its) (l @ s) = map_option (keep g l) (run its s)"
  by simp




lemma run_opt_take:
  "in_cls c x \<Longrightarrow> run its s = Some cap \<Longrightarrow> run ((Opt c, g) # its) (x # s) = Some (keep g [x] cap)"
  by simp



























lemma str_includes_sublist: "str_includes t p \<longleftrightarrow> sublist p t"
  by (induction t) (simp_all add: sublist_Cons_right)

lemma str_replace_unit: "str_replace u [c] [] = remove1 c u"
  by (induction u) auto

lemma remove1_first: "c \<notin> set pre \<Longrightarrow> remove1 c (pre @ c # post) = pre @ post"
  by (induction pre) auto

section \<open>The signal parser on canonical messages\<close>




section \<open>The message classifier\<close>

text \<open>
  Claim C3. \<open>isBullishSignal\<close> is true exactly for the texts that contain the bullish-alert
  marker or the signal-buy marker as a substring, code unit for code unit; it is a function
  of the text alone and is defined on every text.
\<close>

theorem isBullishSignal_iff:
  "isBullishSignal message \<longleftrightarrow>
     (\<exists>pre post. message = pre @ bullish_marker @ post) \<or>
     (\<exists>pre post. message = pre @ buy_marker @ post)"
  by (simp add: isBullishSignal_def str_includes_sublist sublist_def)

section \<open>Username normalisation\<close>

text \<open>
  Claim C5, as amended. The normalisation removes the first at-sign of the username wherever
  it stands: a leading at-sign is stripped, a username without an at-sign is unchanged, and
  an at-sign further inside is removed as well when none precedes it.
\<close>

theorem cleanUsername_first_at_sign:
  "cleanUsername (at_sign # u) = u \<and>
   (at_sign \<notin> set u \<longrightarrow> cleanUsername u = u) \<and>
   (at_sign \<notin> set pre \<longrightarrow> cleanUsername (pre @ at_sign # post) = pre @ post)"
  by (simp add: cleanUsername_def str_replace_unit remove1_first remove1_idem)

theorem cleanUsername_first_at_sign_witness:
  "cleanUsername (at_sign # ascii ''alice'') = ascii ''alice'' \<and>
   at_sign \<notin> set (ascii ''bob'') \<and> cleanUsername (ascii ''bob'') = ascii ''bob'' \<and>
   at_sign \<notin> set (ascii ''a'') \<and>
   cleanUsername (ascii ''a'' @ at_sign # ascii ''b'') = ascii ''a'' @ ascii ''b''"
  using cleanUsername_first_at_sign [of "ascii ''alice''" "ascii ''a''" "ascii ''b''"]
    cleanUsername_first_at_sign [of "ascii ''bob''" "ascii ''bob''" "[]"]
  by (simp add: ascii_def at_sign_def)

text \<open>
  Claim C5 as stated fails: a username without a leading at-sign is changed when it has an
  at-sign further inside.
\<close>

theorem cleanUsername_inner_at_sign_counterexample:
  "hd (ascii ''a@b'') \<noteq> at_sign \<and> cleanUsername (ascii ''a@b'') = ascii ''ab'' \<and>
   cleanUsername (ascii ''a@b'') \<noteq> ascii ''a@b''"
  by (simp add: cleanUsername_def ascii_def at_sign_def)

section \<open>The current-price estimate\<close>




section \<open>Lemmas on traces\<close>

lemma ext_refl: "ext P Q s s"
  by (simp add: ext_def)

lemma ext_trans: "ext P Q a b \<Longrightarrow> ext P Q b c \<Longrightarrow> ext P Q a c"
  by (auto simp: ext_def)

lemma stays_ret: "stays P Q (ret x)"
  by (simp add: stays_def ret_def ext_refl)

lemma stays_throw: "stays P Q (throw e)"
  by (simp add: stays_def throw_def ext_refl)

lemma stays_now: "stays P Q (now w)"
  by (simp add: stays_def now_def ext_refl)

lemma stays_call: "P ev \<Longrightarrow> stays P Q (call ev k)"
  by (simp add: stays_def call_def ext_def)

lemma stays_insertOne: "P (InsertOne r) \<Longrightarrow> Q r \<Longrightarrow> stays P Q (insertOne w r)"
  by (simp add: stays_def insertOne_def ext_def split: option.split)

lemma stays_bnd: "stays P Q m \<Longrightarrow> (\<And>x. stays P Q (f x)) \<Longrightarrow> stays P Q (bnd m f)"
  unfolding stays_def bnd_def
proof
  fix s
  assume m: "\<forall>s. ext P Q s (snd (m s))" and f: "\<And>x. \<forall>s. ext P Q s (snd (f x s))"
  obtain r s' where ms: "m s = (r, s')" by (cases "m s")
  from m ms have 1: "ext P Q s s'" by (metis snd_conv)
  show "ext P Q s (snd (case m s of (Inl e, s') \<Rightarrow> (Inl e, s') | (Inr x, s') \<Rightarrow> f x s'))"
  proof (cases r)
    case (Inl e)
    with ms 1 show ?thesis by simp
  next
    case (Inr x)
    from f have "ext P Q s' (snd (f x s'))" by blast
    with ms 1 Inr show ?thesis by (simp add: ext_trans)
  qed
qed

lemma stays_try: "stays P Q m \<Longrightarrow> (\<And>e. stays P Q (h e)) \<Longrightarrow> stays P Q (try_catch m h)"
  unfolding stays_def try_catch_def
proof
  fix s
  assume m: "\<forall>s. ext P Q s (snd (m s))" and h: "\<And>e. \<forall>s. ext P Q s (snd (h e s))"
  obtain r s' where ms: "m s = (r, s')" by (cases "m s")
  from m ms have 1: "ext P Q s s'" by (metis snd_conv)
  show "ext P Q s (snd (case m s of (Inl e, s') \<Rightarrow> h e s' | (Inr x, s') \<Rightarrow> (Inr x, s')))"
  proof (cases r)
    case (Inl e)
    from h have "ext P Q s' (snd (h e s'))" by blast
    with ms 1 Inl show ?thesis by (simp add: ext_trans)
  next
    case (Inr x)
    with ms 1 show ?thesis by simp
  qed
qed

lemmas stays_intros = stays_ret stays_throw stays_now stays_bnd stays_try

lemma stays_dbConnect: "P DbConnect \<Longrightarrow> stays P Q (dbConnect w)"
  by (simp add: dbConnect_def stays_call)

lemma stays_findChatIdByUsername:
  "P DbConnect \<Longrightarrow> P (FindUser (Some name)) \<Longrightarrow> stays P Q (findChatIdByUsername w name)"
  unfolding findChatIdByUsername_def
  by (intro stays_intros stays_dbConnect stays_call)
     (simp_all add: stays_intros split: option.split)

lemma stays_fetchUserData:
  "P DbConnect \<Longrightarrow> P (FindUser name) \<Longrightarrow> (\<And>tid. P (FindSafe tid)) \<Longrightarrow>
   stays P Q (fetchUserData w name)"
  unfolding fetchUserData_def
  by (intro stays_intros stays_dbConnect stays_call)
     (auto intro!: stays_intros stays_call split: option.split)

lemma stays_simulateTrade:
  "(\<And>b. P (PostSignal b)) \<Longrightarrow> stays P Q (simulateTrade w sd name address)"
  unfolding simulateTrade_def
  by (intro stays_intros stays_call) simp_all


lemma findChatId_missing:
  assumes "connect w (length (trace s)) = None"
    and "find_user w (Suc (length (trace s))) (Some name) = Inr user"
    and "(case user of None \<Rightarrow> None | Some u \<Rightarrow> doc_chatId u) = None"
  shows "findChatIdByUsername w name s
         = (Inl not_found_chat, s\<lparr>trace := trace s @ [DbConnect, FindUser (Some name)]\<rparr>)"
  using assms
  by (auto simp: findChatIdByUsername_def try_catch_def bnd_def dbConnect_def call_def
      settle_def ret_def throw_def not_found_chat_def split: option.splits)



section \<open>Runs of the orchestrator\<close>


lemma handle_Inr:
  assumes "handleSimulateTradeRequest w ud s = (Inr response, s')"
  shows "\<exists>s1 idn s2 s3.
     dbConnect w s = (Inr (), s1) \<and>
     fetchUserData w (username ud) s1 = (Inr idn, s2) \<and>
     simulateTrade w (parseSignalMessage (messageText ud)) (fst idn) (snd idn) s2
       = (Inr response, s3) \<and>
     s' = s3\<lparr>trace := trace s3 @ [InsertOne
                  (attach (simulationRecord ud (clock w (length (trace s1)))) response
                     (parseSignalMessage (messageText ud)) idn)],
              trade_simulations := trade_simulations s3 @
                [attach (simulationRecord ud (clock w (length (trace s1)))) response
                   (parseSignalMessage (messageText ud)) idn]\<rparr>"
  using assms
  by (auto simp: handleSimulateTradeRequest_def try_catch_def bnd_def now_def insertOne_def
      ret_def throw_def split: option.splits prod.splits sum.splits)

lemma simulateTrade_trace:
  "\<exists>body. snd (simulateTrade w sd name address s) = s\<lparr>trace := trace s @ [PostSignal body]\<rparr>"
  by (auto simp: simulateTrade_def try_catch_def bnd_def now_def call_def ret_def throw_def
      split: sum.split)

lemma list_all_False: "list_all (\<lambda>_. False) xs \<longleftrightarrow> xs = []"
  by (cases xs) simp_all

lemma lookups_only:
  assumes "dbConnect w s = (r1, s1)" and "fetchUserData w name s1 = (r2, s2)"
  shows "ext is_lookup (\<lambda>_. False) s s2"
proof -
  have "stays is_lookup (\<lambda>_. False) (dbConnect w)"
    by (rule stays_dbConnect) (simp add: is_lookup_def)
  with assms(1) have "ext is_lookup (\<lambda>_. False) s s1"
    by (metis stays_def snd_conv)
  moreover have "stays is_lookup (\<lambda>_. False) (fetchUserData w name)"
    by (rule stays_fetchUserData) (simp_all add: is_lookup_def)
  with assms(2) have "ext is_lookup (\<lambda>_. False) s1 s2"
    by (metis stays_def snd_conv)
  ultimately show ?thesis by (rule ext_trans)
qed

lemma handle_success_shape:
  assumes "handleSimulateTradeRequest w ud s = (Inr response, s')"
  shows "\<exists>lk body r.
     trace s' = trace s @ lk @ [PostSignal body, InsertOne r] \<and> list_all is_lookup lk \<and>
     trade_simulations s' = trade_simulations s @ [r] \<and>
     interaction.truncate r = ud \<and> apiResponse r = Some response \<and>
     signalData r = Some (parseSignalMessage (messageText ud)) \<and>
     status r = ascii ''initiated''"
proof -
  from handle_Inr [OF assms] obtain s1 idn s2 s3 where
    c: "dbConnect w s = (Inr (), s1)" and
    f: "fetchUserData w (username ud) s1 = (Inr idn, s2)" and
    p: "simulateTrade w (parseSignalMessage (messageText ud)) (fst idn) (snd idn) s2
       = (Inr response, s3)" and
    s': "s' = s3\<lparr>trace := trace s3 @ [InsertOne
                  (attach (simulationRecord ud (clock w (length (trace s1)))) response
                     (parseSignalMessage (messageText ud)) idn)],
              trade_simulations := trade_simulations s3 @
                [attach (simulationRecord ud (clock w (length (trace s1)))) response
                   (parseSignalMessage (messageText ud)) idn]\<rparr>"
    by blast
  let ?r = "attach (simulationRecord ud (clock w (length (trace s1)))) response
                   (parseSignalMessage (messageText ud)) idn"
  from lookups_only [OF c f] obtain lk where
    lk: "trace s2 = trace s @ lk" "list_all is_lookup lk"
    and st: "trade_simulations s2 = trade_simulations s"
    by (auto simp: ext_def list_all_False)
  from simulateTrade_trace [of w "parseSignalMessage (messageText ud)" "fst idn" "snd idn" s2] p
  obtain body where s3: "s3 = s2\<lparr>trace := trace s2 @ [PostSignal body]\<rparr>"
    by auto
  have "interaction.truncate ?r = ud"
    by (simp add: attach_def simulationRecord_def interaction.truncate_def)
  moreover have "apiResponse ?r = Some response"
    "signalData ?r = Some (parseSignalMessage (messageText ud))" "status ?r = ascii ''initiated''"
    by (simp_all add: attach_def simulationRecord_def)
  ultimately show ?thesis
    using lk st s3 s' by auto
qed

lemma uniformI:
  "(\<And>s. m s = (case F (length (trace s)) of
               (r, evs, new) \<Rightarrow>
                 (r, s\<lparr>trace := trace s @ evs,
                       trade_simulations := trade_simulations s @ new\<rparr>))) \<Longrightarrow> uniform m"
  unfolding uniform_def by blast

lemma uniform_ret: "uniform (ret x)"
  by (rule uniformI [where F = "\<lambda>_. (Inr x, [], [])"]) (simp add: ret_def)

lemma uniform_throw: "uniform (throw e)"
  by (rule uniformI [where F = "\<lambda>_. (Inl e, [], [])"]) (simp add: throw_def)

lemma uniform_now: "uniform (now w)"
  by (rule uniformI [where F = "\<lambda>n. (Inr (clock w n), [], [])"]) (simp add: now_def)

lemma uniform_call: "uniform (call ev k)"
  by (rule uniformI [where F = "\<lambda>n. (k n, [ev], [])"]) (simp add: call_def)

lemma uniform_insertOne: "uniform (insertOne w r)"
  by (rule uniformI [where F = "\<lambda>n. case insert_one w n r of
        None \<Rightarrow> (Inr (), [InsertOne r], [r]) | Some e \<Rightarrow> (Inl e, [InsertOne r], [])"])
     (simp add: insertOne_def split: option.split)

lemma uniform_bnd:
  assumes "uniform m" and "\<And>x. uniform (f x)"
  shows "uniform (bnd m f)"
proof -
  from assms(1) obtain F where F: "\<And>s. m s = (case F (length (trace s)) of
      (r, evs, new) \<Rightarrow> (r, s\<lparr>trace := trace s @ evs,
        trade_simulations := trade_simulations s @ new\<rparr>))"
    unfolding uniform_def by blast
  from assms(2) have "\<forall>x. \<exists>G. \<forall>s. f x s = (case G (length (trace s)) of
      (r, evs, new) \<Rightarrow> (r, s\<lparr>trace := trace s @ evs,
        trade_simulations := trade_simulations s @ new\<rparr>))"
    unfolding uniform_def by blast
  then obtain G where G: "\<And>x s. f x s = (case G x (length (trace s)) of
      (r, evs, new) \<Rightarrow> (r, s\<lparr>trace := trace s @ evs,
        trade_simulations := trade_simulations s @ new\<rparr>))"
    by metis
  show ?thesis
    by (rule uniformI [where F = "\<lambda>n. case F n of
          (Inl e, evs, new) \<Rightarrow> (Inl e, evs, new)
        | (Inr x, evs, new) \<Rightarrow>
            (case G x (n + length evs) of (r, evs', new') \<Rightarrow> (r, evs @ evs', new @ new'))"])
       (simp add: bnd_def F G split: prod.split sum.split)
qed

lemma uniform_try:
  assumes "uniform m" and "\<And>e. uniform (h e)"
  shows "uniform (try_catch m h)"
proof -
  from assms(1) obtain F where F: "\<And>s. m s = (case F (length (trace s)) of
      (r, evs, new) \<Rightarrow> (r, s\<lparr>trace := trace s @ evs,
        trade_simulations := trade_simulations s @ new\<rparr>))"
    unfolding uniform_def by blast
  from assms(2) have "\<forall>x. \<exists>G. \<forall>s. h x s = (case G (length (trace s)) of
      (r, evs, new) \<Rightarrow> (r, s\<lparr>trace := trace s @ evs,
        trade_simulations := trade_simulations s @ new\<rparr>))"
    unfolding uniform_def by blast
  then obtain G where G: "\<And>x s. h x s = (case G x (length (trace s)) of
      (r, evs, new) \<Rightarrow> (r, s\<lparr>trace := trace s @ evs,
        trade_simulations := trade_simulations s @ new\<rparr>))"
    by metis
  show ?thesis
    by (rule uniformI [where F = "\<lambda>n. case F n of
          (Inl e, evs, new) \<Rightarrow>
            (case G e (n + length evs) of (r, evs', new') \<Rightarrow> (r, evs @ evs', new @ new'))
        | (Inr x, evs, new) \<Rightarrow> (Inr x, evs, new)"])
       (simp add: try_catch_def F G split: prod.split sum.split)
qed

lemmas uniform_intros =
  uniform_ret uniform_throw uniform_now uniform_call uniform_insertOne uniform_bnd uniform_try

lemma uniform_dbConnect: "uniform (dbConnect w)"
  by (simp add: dbConnect_def uniform_call)

lemma uniform_fetchUserData: "uniform (fetchUserData w name)"
  unfolding fetchUserData_def
  by (intro uniform_intros uniform_dbConnect)
     (auto intro!: uniform_intros split: option.split)

lemma uniform_simulateTrade: "uniform (simulateTrade w sd name address)"
  unfolding simulateTrade_def by (intro uniform_intros)

lemma uniform_handle: "uniform (handleSimulateTradeRequest w ud)"
  unfolding handleSimulateTradeRequest_def
  by (intro uniform_intros uniform_dbConnect uniform_fetchUserData uniform_simulateTrade)

lemma uniform_same:
  assumes "uniform m" and "length (trace s) = length (trace s')"
  shows "fst (m s) = fst (m s') \<and>
     drop (length (trace s)) (trace (snd (m s))) = drop (length (trace s')) (trace (snd (m s'))) \<and>
     drop (length (trade_simulations s)) (trade_simulations (snd (m s)))
       = drop (length (trade_simulations s')) (trade_simulations (snd (m s')))"
proof -
  from assms(1) obtain F where F: "\<And>s. m s = (case F (length (trace s)) of
      (r, evs, new) \<Rightarrow> (r, s\<lparr>trace := trace s @ evs,
        trade_simulations := trade_simulations s @ new\<rparr>))"
    unfolding uniform_def by blast
  obtain r evs new where "F (length (trace s)) = (r, evs, new)"
    by (cases "F (length (trace s))")
  with assms(2) show ?thesis by (simp add: F [of s] F [of s'])
qed

section \<open>Events and records of the orchestrator and the correlator\<close>

lemma stays_handle:
  assumes "\<And>e. \<not> is_insert e \<Longrightarrow> P e"
    and "\<And>r. status r = ascii ''initiated'' \<Longrightarrow> P (InsertOne r) \<and> Q r"
  shows "stays P Q (handleSimulateTradeRequest w ud)"
  unfolding handleSimulateTradeRequest_def
  by (intro stays_intros stays_dbConnect stays_fetchUserData stays_simulateTrade
      stays_insertOne)
     (simp_all add: assms is_insert_def attach_def simulationRecord_def)

lemma stays_editMessageText:
  "(\<And>c. P (EditMessageText c mid body)) \<Longrightarrow> stays P Q (editMessageText w ctx mid body)"
  by (simp add: editMessageText_def stays_throw stays_call split: option.split)

lemma stays_process:
  assumes "\<And>e. \<not> is_insert e \<Longrightarrow> P e"
    and "\<And>r. status r = ascii ''initiated'' \<Longrightarrow> P (InsertOne r) \<and> Q r"
  shows "stays P Q (process_simulation w ctx ud mid)"
  unfolding process_simulation_def answerCbQuery_def reply_def
  by (intro stays_intros stays_call stays_handle stays_editMessageText)
     (simp_all add: assms is_insert_def)

lemma stays_report_failure:
  assumes "\<And>e. \<not> is_remote e \<Longrightarrow> P e"
  shows "stays P Q (report_failure w)"
  unfolding report_failure_def answerCbQuery_def reply_def
  by (intro stays_intros stays_call) (simp_all add: assms is_remote_def)

lemma action_unfold:
  "simulate_trade_action w ctx s =
     (case userData_of ctx (clock w (length (trace s))) of
        Inl e \<Rightarrow> report_failure w s
      | Inr u \<Rightarrow>
          (case answer w (length (trace s)) processing_notice of
             Some e \<Rightarrow>
               report_failure w (s\<lparr>trace := trace s @ [AnswerCbQuery processing_notice]\<rparr>)
           | None \<Rightarrow>
               (case post_reply w (Suc (length (trace s))) processing_text of
                  Inl e \<Rightarrow>
                    report_failure w
                      (s\<lparr>trace := trace s @ [AnswerCbQuery processing_notice,
                                              Reply processing_text]\<rparr>)
                | Inr mid \<Rightarrow>
                    (case process_simulation w ctx u mid
                            (s\<lparr>trace := trace s @ [AnswerCbQuery processing_notice,
                                                    Reply processing_text]\<rparr>) of
                       (Inl e, s3) \<Rightarrow> report_failure w s3
                     | (Inr x, s3) \<Rightarrow> (Inr x, s3)))))"
  by (simp add: simulate_trade_action_def try_catch_def bnd_def now_def answerCbQuery_def
      reply_def call_def settle_def throw_def ret_def
      split: sum.split option.split prod.split)


lemma stays_sendMessage:
  assumes "\<And>e. \<not> is_insert e \<Longrightarrow> P e"
  shows "stays P Q (sendMessage w name message)"
  unfolding sendMessage_def
  by (intro stays_intros stays_findChatIdByUsername)
     (auto simp: assms is_insert_def intro!: stays_intros stays_call split: js_error.split)

lemma stays_action:
  assumes "\<And>e. \<not> is_insert e \<Longrightarrow> P e"
    and "\<And>r. status r = ascii ''initiated'' \<Longrightarrow> P (InsertOne r) \<and> Q r"
  shows "stays P Q (simulate_trade_action w ctx)"
proof -
  have "stays P Q (report_failure w)"
    by (rule stays_report_failure) (simp add: assms(1) is_remote_def is_insert_def split: event.splits)
  then show ?thesis
    unfolding simulate_trade_action_def answerCbQuery_def reply_def
    by (intro stays_intros stays_call stays_process)
       (auto simp: assms is_insert_def intro!: stays_intros split: sum.split)
qed

section \<open>The dispatcher\<close>

text \<open>
  Claim C7. When the store is reached and the lookup of the normalised username finds no
  record, or a record without a chat id, \<open>sendMessage\<close> fails with the not-found error
  of the lookup after the two store calls: no call of the chat transport is made and no
  message is sent.
\<close>

theorem sendMessage_unknown_user:
  assumes "connect w (length (trace s)) = None"
    and "find_user w (Suc (length (trace s))) (Some (cleanUsername name)) = Inr user"
    and "(case user of None \<Rightarrow> None | Some u \<Rightarrow> doc_chatId u) = None"
  shows "sendMessage w name message s
         = (Inl not_found_chat,
            s\<lparr>trace := trace s @ [DbConnect, FindUser (Some (cleanUsername name))]\<rparr>) \<and>
     filter is_send (trace (snd (sendMessage w name message s))) = filter is_send (trace s)"
  using findChatId_missing [OF assms]
  by (simp add: sendMessage_def try_catch_def bnd_def throw_def not_found_chat_def is_send_def)

text \<open>
  Scenario C: nobody called \<^verbatim>\<open>unknown_user\<close> is on record.
\<close>

theorem sendMessage_unknown_user_witness:
  "sendMessage quiet_world (ascii ''unknown_user'') plain_update idle
     = (Inl not_found_chat,
        idle\<lparr>trace := trace idle @ [DbConnect,
           FindUser (Some (cleanUsername (ascii ''unknown_user'')))]\<rparr>) \<and>
   filter is_send (trace (snd (sendMessage quiet_world (ascii ''unknown_user'') plain_update idle)))
     = filter is_send (trace idle)"
proof -
  have "cleanUsername (ascii ''unknown_user'') \<noteq> ascii ''alice''"
    by (simp add: cleanUsername_def ascii_def at_sign_def)
  then have "find_user quiet_world (Suc (length (trace idle)))
      (Some (cleanUsername (ascii ''unknown_user''))) = Inr None"
    by (simp add: quiet_world_def)
  moreover have "connect quiet_world (length (trace idle)) = None"
    by (simp add: quiet_world_def)
  ultimately show ?thesis
    by (intro sendMessage_unknown_user [where user = None]) simp_all
qed



section \<open>The orchestrator persists one record\<close>










section \<open>The orchestrator is not idempotent\<close>

text \<open>
  Claim C8. Two invocations on the same interaction event that both return have made two
  remote calls and two inserts, of two records of that event, each with the response of its
  own call. No path looks at what was stored or done before: from any state with the same
  number of earlier calls, an invocation returns the same result and adds the same events
  and records.
\<close>

theorem handleSimulateTradeRequest_not_idempotent:
  assumes "handleSimulateTradeRequest w ud s = (Inr a1, s1)"
    and "handleSimulateTradeRequest w ud s1 = (Inr a2, s2)"
  shows "length (filter is_post (drop (length (trace s)) (trace s2))) = 2 \<and>
     length (filter is_insert (drop (length (trace s)) (trace s2))) = 2 \<and>
     map interaction.truncate (drop (length (trade_simulations s)) (trade_simulations s2))
       = [ud, ud] \<and>
     map apiResponse (drop (length (trade_simulations s)) (trade_simulations s2))
       = [Some a1, Some a2] \<and>
     (length (trace s') = length (trace s) \<longrightarrow>
        fst (handleSimulateTradeRequest w ud s') = fst (handleSimulateTradeRequest w ud s) \<and>
        drop (length (trace s')) (trace (snd (handleSimulateTradeRequest w ud s')))
          = drop (length (trace s)) (trace (snd (handleSimulateTradeRequest w ud s))) \<and>
        drop (length (trade_simulations s'))
            (trade_simulations (snd (handleSimulateTradeRequest w ud s')))
          = drop (length (trade_simulations s))
              (trade_simulations (snd (handleSimulateTradeRequest w ud s))))"
proof -
  from handle_success_shape [OF assms(1)] obtain lk1 b1 r1 where
    1: "trace s1 = trace s @ lk1 @ [PostSignal b1, InsertOne r1]" "list_all is_lookup lk1"
      "trade_simulations s1 = trade_simulations s @ [r1]"
      "interaction.truncate r1 = ud" "apiResponse r1 = Some a1"
    by blast
  from handle_success_shape [OF assms(2)] obtain lk2 b2 r2 where
    2: "trace s2 = trace s1 @ lk2 @ [PostSignal b2, InsertOne r2]" "list_all is_lookup lk2"
      "trade_simulations s2 = trade_simulations s1 @ [r2]"
      "interaction.truncate r2 = ud" "apiResponse r2 = Some a2"
    by blast
  have lk: "filter is_post lk = [] \<and> filter is_insert lk = []" if "list_all is_lookup lk" for lk
    using that
    by (induction lk) (auto simp: is_lookup_def is_post_def is_insert_def split: event.splits)
  have "drop (length (trace s)) (trace s2)
      = lk1 @ [PostSignal b1, InsertOne r1] @ lk2 @ [PostSignal b2, InsertOne r2]"
    by (simp add: 1(1) 2(1))
  then have "length (filter is_post (drop (length (trace s)) (trace s2))) = 2"
    and "length (filter is_insert (drop (length (trace s)) (trace s2))) = 2"
    using lk [OF 1(2)] lk [OF 2(2)] by (simp_all add: is_post_def is_insert_def)
  moreover have "drop (length (trade_simulations s)) (trade_simulations s2) = [r1, r2]"
    by (simp add: 1(3) 2(3))
  moreover have "length (trace s') = length (trace s) \<Longrightarrow>
        fst (handleSimulateTradeRequest w ud s') = fst (handleSimulateTradeRequest w ud s) \<and>
        drop (length (trace s')) (trace (snd (handleSimulateTradeRequest w ud s')))
          = drop (length (trace s)) (trace (snd (handleSimulateTradeRequest w ud s))) \<and>
        drop (length (trade_simulations s'))
            (trade_simulations (snd (handleSimulateTradeRequest w ud s')))
          = drop (length (trade_simulations s))
              (trade_simulations (snd (handleSimulateTradeRequest w ud s)))"
    by (rule uniform_same [OF uniform_handle])
  ultimately show ?thesis
    using 1(4,5) 2(4,5) by simp
qed

lemma quiet_handle_alice:
  "fst (handleSimulateTradeRequest quiet_world (click (ascii ''alice'')) s) = Inr failed_response"
  by (simp add: handleSimulateTradeRequest_def fetchUserData_def simulateTrade_def insertOne_def
      try_catch_def bnd_def now_def dbConnect_def call_def settle_def ret_def throw_def
      quiet_world_def click_def ascii_def)

text \<open>
  The same click of alice processed twice.
\<close>

theorem handleSimulateTradeRequest_not_idempotent_witness:
  "length (filter is_post (trace (snd (handleSimulateTradeRequest quiet_world (click (ascii ''alice''))
      (snd (handleSimulateTradeRequest quiet_world (click (ascii ''alice'')) idle)))))) = 2 \<and>
   map interaction.truncate
     (trade_simulations (snd (handleSimulateTradeRequest quiet_world (click (ascii ''alice''))
        (snd (handleSimulateTradeRequest quiet_world (click (ascii ''alice'')) idle)))))
     = [click (ascii ''alice''), click (ascii ''alice'')]"
proof -
  let ?h = "handleSimulateTradeRequest quiet_world (click (ascii ''alice''))"
  have 1: "?h idle = (Inr failed_response, snd (?h idle))"
    using quiet_handle_alice [of idle] by (metis prod.collapse)
  have 2: "?h (snd (?h idle)) = (Inr failed_response, snd (?h (snd (?h idle))))"
    using quiet_handle_alice [of "snd (?h idle)"] by (metis prod.collapse)
  show ?thesis
    using handleSimulateTradeRequest_not_idempotent [OF 1 2, where s' = idle]
    by (simp add: idle_def)
qed

section \<open>The status of a stored record\<close>

text \<open>
  Claim C10. Every record that a run of the orchestrator or of the callback handler hands
  to the store, and every record it adds to the collection, has status
  \<^verbatim>\<open>initiated\<close>, whatever the remote call answered; the collection only grows, and
  the dispatcher leaves it as it is.
\<close>

theorem simulation_records_initiated:
  "(\<exists>evs new.
      trace (snd (handleSimulateTradeRequest w ud s)) = trace s @ evs \<and>
      list_all insert_initiated evs \<and>
      trade_simulations (snd (handleSimulateTradeRequest w ud s)) = trade_simulations s @ new \<and>
      list_all (\<lambda>r. status r = ascii ''initiated'') new) \<and>
   (\<exists>evs new.
      trace (snd (simulate_trade_action w ctx s)) = trace s @ evs \<and>
      list_all insert_initiated evs \<and>
      trade_simulations (snd (simulate_trade_action w ctx s)) = trade_simulations s @ new \<and>
      list_all (\<lambda>r. status r = ascii ''initiated'') new) \<and>
   trade_simulations (snd (sendMessage w name message s)) = trade_simulations s"
proof -
  have "stays insert_initiated (\<lambda>r. status r = ascii ''initiated'')
      (handleSimulateTradeRequest w ud)"
    by (rule stays_handle) (simp_all add: insert_initiated_def is_insert_def split: event.splits)
  moreover have "stays insert_initiated (\<lambda>r. status r = ascii ''initiated'')
      (simulate_trade_action w ctx)"
    by (rule stays_action) (simp_all add: insert_initiated_def is_insert_def split: event.splits)
  moreover have "stays (\<lambda>e. \<not> is_insert e) (\<lambda>_. False) (sendMessage w name message)"
    by (rule stays_sendMessage)
  ultimately show ?thesis
    by (auto simp: stays_def ext_def list_all_False)
qed

text \<open>
  The record of scenario D embeds a response with status \<^verbatim>\<open>failed\<close> and has
  status \<^verbatim>\<open>initiated\<close>.
\<close>

theorem simulation_records_initiated_witness:
  "map status
     (trade_simulations (snd (handleSimulateTradeRequest quiet_world (click (ascii ''alice'')) idle)))
     = [ascii ''initiated''] \<and>
   map (map_option resp_status \<circ> apiResponse)
     (trade_simulations (snd (handleSimulateTradeRequest quiet_world (click (ascii ''alice'')) idle)))
     = [Some (Some (ascii ''failed''))]"
proof -
  let ?h = "handleSimulateTradeRequest quiet_world (click (ascii ''alice''))"
  have 1: "?h idle = (Inr failed_response, snd (?h idle))"
    using quiet_handle_alice [of idle] by (metis prod.collapse)
  from handle_success_shape [OF 1] obtain r where
    r: "trade_simulations (snd (?h idle)) = trade_simulations idle @ [r]"
      "apiResponse r = Some failed_response"
    by blast
  from simulation_records_initiated [of quiet_world "click (ascii ''alice'')" idle]
  obtain new where
    n: "trade_simulations (snd (?h idle)) = trade_simulations idle @ new"
    "list_all (\<lambda>r. status r = ascii ''initiated'') new"
    by blast
  from r(1) have ts: "trade_simulations (snd (?h idle)) = [r]"
    by (simp add: idle_def)
  with n have "status r = ascii ''initiated''"
    by (simp add: idle_def)
  then show ?thesis
    by (simp add: ts r(2) failed_response_def)
qed

section \<open>Acknowledgment before the remote workflow\<close>

text \<open>
  Claim C9. In every run of the handler, either no call to the document store or to the
  remote API is made, or the first two events of the run are the acknowledgment of the
  interaction and the posting of the processing message, and both succeeded.
\<close>

theorem acknowledged_before_workflow:
  "\<exists>evs. trace (snd (simulate_trade_action w ctx s)) = trace s @ evs \<and>
     (list_all (\<lambda>e. \<not> is_remote e) evs \<or>
      (\<exists>mid rest.
         evs = AnswerCbQuery processing_notice # Reply processing_text # rest \<and>
         answer w (length (trace s)) processing_notice = None \<and>
         post_reply w (Suc (length (trace s))) processing_text = Inr mid))"
proof -
  have fail: "\<exists>evs. trace (snd (report_failure w s0)) = trace s0 @ evs \<and>
      list_all (\<lambda>e. \<not> is_remote e) evs" for s0
    using stays_report_failure [of "\<lambda>e. \<not> is_remote e" "\<lambda>_. True" w]
    by (auto simp: stays_def ext_def)
  have grow_fail: "\<exists>evs. trace (snd (report_failure w s0)) = trace s0 @ evs" for s0
    using fail [of s0] by blast
  have grow: "\<exists>evs. trace (snd (process_simulation w ctx u mid s0)) = trace s0 @ evs"
    for u mid s0
    using stays_process [of "\<lambda>_. True" "\<lambda>_. True" w ctx u mid]
    by (auto simp: stays_def ext_def)
  show ?thesis
  proof (cases "userData_of ctx (clock w (length (trace s)))")
    case (Inl e)
    with fail [of s] show ?thesis by (auto simp: action_unfold)
  next
    case (Inr u)
    show ?thesis
    proof (cases "answer w (length (trace s)) processing_notice")
      case (Some e)
      from fail [of "s\<lparr>trace := trace s @ [AnswerCbQuery processing_notice]\<rparr>"]
      obtain evs where "trace (snd (report_failure w
          (s\<lparr>trace := trace s @ [AnswerCbQuery processing_notice]\<rparr>)))
          = trace s @ AnswerCbQuery processing_notice # evs"
        and "list_all (\<lambda>e. \<not> is_remote e) evs"
        by auto
      with Inr Some show ?thesis
        by (auto simp: action_unfold is_remote_def)
    next
      case None
      let ?sb = "s\<lparr>trace := trace s @ [AnswerCbQuery processing_notice, Reply processing_text]\<rparr>"
      show ?thesis
      proof (cases "post_reply w (Suc (length (trace s))) processing_text")
        case (Inl e)
        from fail [of ?sb]
        obtain evs where "trace (snd (report_failure w ?sb))
            = trace s @ AnswerCbQuery processing_notice # Reply processing_text # evs"
          and "list_all (\<lambda>e. \<not> is_remote e) evs"
          by auto
        with Inr None Inl show ?thesis
          by (auto simp: action_unfold is_remote_def)
      next
        case mid: (Inr mid)
        obtain r3 s3 where p: "process_simulation w ctx u mid ?sb = (r3, s3)"
          by (cases "process_simulation w ctx u mid ?sb")
        from grow [of u mid ?sb] p obtain k where k: "trace s3 = trace ?sb @ k"
          by auto
        have "\<exists>rest. trace (snd (simulate_trade_action w ctx s))
            = trace s @ AnswerCbQuery processing_notice # Reply processing_text # rest"
        proof (cases r3)
          case (Inl e)
          from grow_fail [of s3] obtain k' where "trace (snd (report_failure w s3)) = trace s3 @ k'"
            by blast
          with Inr None mid p Inl k show ?thesis
            by (simp add: action_unfold)
        next
          case r: (Inr x)
          with Inr None mid p k show ?thesis
            by (simp add: action_unfold)
        qed
        with None mid show ?thesis by blast
      qed
    qed
  qed
qed

lemma quiet_action_connects:
  "DbConnect \<in> set (trace (snd (simulate_trade_action quiet_world alice_ctx idle)))"
  by (simp add: action_unfold userData_of_def alice_ctx_def quiet_world_def idle_def
      process_simulation_def handleSimulateTradeRequest_def fetchUserData_def simulateTrade_def
      insertOne_def editMessageText_def answerCbQuery_def reply_def try_catch_def bnd_def
      now_def dbConnect_def call_def settle_def ret_def throw_def ascii_def)

text \<open>
  The click of alice in the quiet world reaches the store, so its run starts with the
  acknowledgment and the processing message.
\<close>

theorem acknowledged_before_workflow_witness:
  "\<exists>rest. trace (snd (simulate_trade_action quiet_world alice_ctx idle))
     = AnswerCbQuery processing_notice # Reply processing_text # rest"
proof -
  from acknowledged_before_workflow [of quiet_world alice_ctx idle]
  obtain evs where evs: "trace (snd (simulate_trade_action quiet_world alice_ctx idle)) = evs"
    and d: "list_all (\<lambda>e. \<not> is_remote e) evs \<or>
      (\<exists>mid rest. evs = AnswerCbQuery processing_notice # Reply processing_text # rest \<and>
         answer quiet_world (length (trace idle)) processing_notice = None \<and>
         post_reply quiet_world (Suc (length (trace idle))) processing_text = Inr mid)"
    by (auto simp: idle_def)
  have "is_remote DbConnect"
    by (simp add: is_remote_def)
  with quiet_action_connects evs have "\<not> list_all (\<lambda>e. \<not> is_remote e) evs"
    unfolding list_all_iff by blast
  with d evs show ?thesis by blast
qed

end
